theory Spec2Isabelle
  imports Main "HOL-Library.Word"
begin

section \<open>The Meta command (internal/command/meta.go)\<close>

subsection \<open>Data\<close>

text \<open>A Go \<open>error\<close> value, kept by its message.\<close>

datatype error = Error string

text \<open>\<open>type source struct { GUID, Name string }\<close>\<close>

record source =
  GUID :: string
  Name :: string

text \<open>
  \<open>type serviceInstance struct\<close>: the two fields the code reads,
  \<open>Metadata.GUID\<close> and \<open>Entity.Name\<close>.
\<close>

record serviceInstance =
  Metadata_GUID :: string
  Entity_Name :: string

text \<open>
  \<open>cli.CliCommandWithoutTerminalOutput(args...)\<close> talks to the outside world: it takes
  the state of that world and the argument vector, and gives back the lines it read or
  an error, with the world's next state.
\<close>

type_synonym 'w cli_command = "'w \<Rightarrow> string list \<Rightarrow> (error + string list) \<times> 'w"

subsection \<open>String helpers of the Go library that the code calls\<close>

text \<open>\<open>strings.Join(elems, sep)\<close>\<close>

fun join :: "string list \<Rightarrow> string \<Rightarrow> string" where
  "join [] sep = []"
| "join [x] sep = x"
| "join (x # y # ys) sep = x @ sep @ join (y # ys) sep"

subsection \<open>getSourceInfo and getServiceInfo\<close>

text \<open>
  The loop of \<open>getSourceInfo\<close> (meta.go, lines 205 to 228). Each round takes the first
  \<open>n\<close> ids, \<open>n\<close> being 50 or all that is left, asks \<open>/v3/apps\<close> for them, drops
  them and decodes the answer. The third component of the state, \<open>groups\<close>, is a trace:
  the slice \<open>sourceIDs[0:n]\<close> of every call issued so far, in order. An error of the
  call or of the decoder ends the function with that error.
\<close>

function apps_loop ::
  "'w cli_command \<Rightarrow> (string \<Rightarrow> error + source list) \<Rightarrow>
   string list \<Rightarrow> source list \<Rightarrow> string list list \<Rightarrow> 'w \<Rightarrow>
   string list list \<times> 'w \<times> (error + source list)" where
  "apps_loop cli decode sourceIDs resources groups w =
     (if length sourceIDs > 0 then
        (let n = (if length sourceIDs < 50 then length sourceIDs else 50) in
         case cli w [''curl'', ''/v3/apps?guids='' @ join (take n sourceIDs) '',''] of
           (Inl err, w') \<Rightarrow> (groups @ [take n sourceIDs], w', Inl err)
         | (Inr lines, w') \<Rightarrow>
             (case decode (join lines []) of
                Inl err \<Rightarrow> (groups @ [take n sourceIDs], w', Inl err)
              | Inr r \<Rightarrow>
                  apps_loop cli decode (drop n sourceIDs) (resources @ r)
                    (groups @ [take n sourceIDs]) w'))
      else (groups, w, Inr resources))"
  by pat_completeness auto
termination
  by (relation "measure (\<lambda>(cli, decode, sourceIDs, resources, groups, w). length sourceIDs)")
     (auto split: if_splits)

text \<open>
  The first loop of \<open>getServiceInfo\<close> (lines 253 to 269): the same grouping against
  \<open>/v2/service_instances\<close>; the bodies are collected and decoded afterwards.
\<close>

function services_loop ::
  "'w cli_command \<Rightarrow> string list \<Rightarrow> string list \<Rightarrow> string list list \<Rightarrow> 'w \<Rightarrow>
   string list list \<times> 'w \<times> (error + string list)" where
  "services_loop cli sourceIDs responseBodies groups w =
     (if length sourceIDs > 0 then
        (let n = (if length sourceIDs < 50 then length sourceIDs else 50) in
         case cli w [''curl'', ''/v2/service_instances?guids='' @ join (take n sourceIDs) '',''] of
           (Inl err, w') \<Rightarrow> (groups @ [take n sourceIDs], w', Inl err)
         | (Inr lines, w') \<Rightarrow>
             services_loop cli (drop n sourceIDs) (responseBodies @ [join lines []])
               (groups @ [take n sourceIDs]) w')
      else (groups, w, Inr responseBodies))"
  by pat_completeness auto
termination
  by (relation "measure (\<lambda>(cli, sourceIDs, responseBodies, groups, w). length sourceIDs)")
     (auto split: if_splits)

text \<open>The second loop of \<open>getServiceInfo\<close> (lines 271 to 283).\<close>

fun decode_bodies ::
  "(string \<Rightarrow> error + serviceInstance list) \<Rightarrow> string list \<Rightarrow> source list \<Rightarrow>
   error + source list" where
  "decode_bodies decode [] resources = Inr resources"
| "decode_bodies decode (rb # rbs) resources =
     (case decode rb of
        Inl err \<Rightarrow> Inl err
      | Inr r \<Rightarrow>
          decode_bodies decode rbs
            (resources @ map (\<lambda>res. \<lparr>GUID = Metadata_GUID res, Name = Entity_Name res\<rparr>) r))"

definition getServiceInfo ::
  "'w cli_command \<Rightarrow> (string \<Rightarrow> error + serviceInstance list) \<Rightarrow> string list \<Rightarrow> 'w \<Rightarrow>
   string list list \<times> 'w \<times> (error + source list)" where
  "getServiceInfo cli decode sourceIDs w =
     (case services_loop cli sourceIDs [] [] w of
        (groups, w', Inl err) \<Rightarrow> (groups, w', Inl err)
      | (groups, w', Inr responseBodies) \<Rightarrow> (groups, w', decode_bodies decode responseBodies []))"

text \<open>
  \<open>map[string]*logcache_v1.MetaInfo\<close>: the fields of \<open>MetaInfo\<close> that the code reads,
  all \<open>int64\<close>. A Go map is kept as an association list with distinct keys; every
  \<open>range\<close> over it visits the entries in the order of the list (Go leaves the order
  open).
\<close>

record MetaInfo =
  Count :: int
  Expired :: int
  OldestTimestamp :: int
  NewestTimestamp :: int

text \<open>
  \<open>getSourceInfo\<close> (lines 195 to 245). The local map \<open>meta\<close> holds the keys of
  \<open>metaInfo\<close>; the ids sent to \<open>getServiceInfo\<close> are the keys that no resource of the
  \<open>/v3/apps\<close> answers carries as its GUID. The traces of both lookups are returned.
\<close>

definition getSourceInfo ::
  "'w cli_command \<Rightarrow> (string \<Rightarrow> error + source list) \<Rightarrow>
   (string \<Rightarrow> error + serviceInstance list) \<Rightarrow> (string \<times> MetaInfo) list \<Rightarrow> 'w \<Rightarrow>
   (string list list \<times> string list list) \<times> 'w \<times> (error + source list)" where
  "getSourceInfo cli decodeApps decodeServices metaInfo w =
     (let sourceIDs = map fst metaInfo in
      case apps_loop cli decodeApps sourceIDs [] [] w of
        (g1, w1, Inl err) \<Rightarrow> ((g1, []), w1, Inl err)
      | (g1, w1, Inr resources) \<Rightarrow>
          (let s = filter (\<lambda>id. id \<notin> set (map GUID resources)) sourceIDs in
           case getServiceInfo cli decodeServices s w1 of
             (g2, w2, Inl err) \<Rightarrow> ((g1, g2), w2, Inl err)
           | (g2, w2, Inr services) \<Rightarrow> ((g1, g2), w2, Inr (resources @ services))))"

subsection \<open>invalidScope\<close>

definition validScopes :: "string list" where
  "validScopes = [''platform'', ''applications'', ''all'']"

text \<open>The \<open>for _, s := range validScopes\<close> loop of \<open>invalidScope\<close> and its final \<open>return true\<close>.\<close>

fun scope_loop :: "string \<Rightarrow> string list \<Rightarrow> bool" where
  "scope_loop scope [] = True"
| "scope_loop scope (s # ss) = (if scope = s then False else scope_loop scope ss)"

definition invalidScope :: "string \<Rightarrow> bool" where
  "invalidScope scope = (if scope = [] then False else scope_loop scope validScopes)"

subsection \<open>Library functions used by Meta\<close>

text \<open>
  \<open>strings.ToLower\<close> on the bytes of a string: the letters A to Z are mapped to a to z.
  (Go also folds letters outside ASCII; every other byte is left as it is here.)
\<close>

definition lower_char :: "char \<Rightarrow> char" where
  "lower_char c =
     (let n = (of_char c :: nat) in if 65 \<le> n \<and> n \<le> 90 then char_of (n + 32) else c)"

definition toLower :: "string \<Rightarrow> string" where
  "toLower s = map lower_char s"

text \<open>\<open>strings.Replace(s, old, new, 1)\<close>: the first occurrence of \<open>old\<close> is replaced.\<close>

fun replace_first :: "string \<Rightarrow> string \<Rightarrow> string \<Rightarrow> string" where
  "replace_first [] old new = (if old = [] then new else [])"
| "replace_first (c # cs) old new =
     (if take (length old) (c # cs) = old then new @ drop (length old) (c # cs)
      else c # replace_first cs old new)"

text \<open>
  \<open>idRegexp.MatchString\<close> for the pattern
  \<open>[0-9a-f]{8}-[0-9a-f]{4}-[0-9a-f]{4}-[0-9a-f]{4}-[0-9a-f]{12}\<close>: the pattern has no
  anchors, so a string matches when the pattern matches at some position of it.
\<close>

definition hexdigit :: "char \<Rightarrow> bool" where
  "hexdigit c = (c \<in> set ''0123456789abcdef'')"

fun hexrun :: "nat \<Rightarrow> string \<Rightarrow> string option" where
  "hexrun 0 s = Some s"
| "hexrun (Suc n) [] = None"
| "hexrun (Suc n) (c # s) = (if hexdigit c then hexrun n s else None)"

fun dash :: "string \<Rightarrow> string option" where
  "dash [] = None"
| "dash (c # s) = (if c = CHR ''-'' then Some s else None)"

definition match_here :: "string \<Rightarrow> bool" where
  "match_here s =
     (Option.bind (Option.bind (Option.bind (Option.bind (Option.bind (Option.bind
        (Option.bind (Option.bind (hexrun 8 s) dash) (hexrun 4)) dash) (hexrun 4)) dash)
        (hexrun 4)) dash) (hexrun 12) \<noteq> None)"

fun matchString :: "string \<Rightarrow> bool" where
  "matchString [] = match_here []"
| "matchString (c # s) = (match_here (c # s) \<or> matchString s)"

text \<open>
  \<open>cacheDuration\<close>: \<open>time.Unix(0, newest).Sub(time.Unix(0, oldest))\<close> is the difference
  in nanoseconds, held at the least and the greatest \<open>Duration\<close> (an \<open>int64\<close>);
  \<open>Truncate(time.Second)\<close> rounds it toward zero to whole seconds.
\<close>

definition time_sub :: "int \<Rightarrow> int \<Rightarrow> int" where
  "time_sub t u = max (- (2 ^ 63)) (min (2 ^ 63 - 1) (t - u))"

definition truncate_duration :: "int \<Rightarrow> int \<Rightarrow> int" where
  "truncate_duration d m = (if m \<le> 0 then d else d - sgn d * (\<bar>d\<bar> mod m))"

definition cacheDuration :: "MetaInfo \<Rightarrow> int" where
  "cacheDuration m =
     truncate_duration (time_sub (NewestTimestamp m) (OldestTimestamp m)) 1000000000"

subsection \<open>Meta\<close>

text \<open>\<open>type optionsFlags struct\<close> and the defaults \<open>Meta\<close> starts from.\<close>

record optionsFlags =
  Scope :: string
  EnableNoise :: bool
  ShowGUID :: bool

definition defaultOptions :: optionsFlags where
  "defaultOptions = \<lparr>Scope = ''all'', EnableNoise = False, ShowGUID = False\<rparr>"

text \<open>
  What \<open>Meta\<close> is given and what it calls outside this file: the flag parser
  (\<open>flags.ParseArgs\<close>, which fills the options and returns the arguments left over),
  the environment, the CLI connection, the Log Cache client (by endpoint and access token,
  the token absent when \<open>LOG_CACHE_SKIP_AUTH\<close> is \<open>true\<close>), the JSON decoders and the
  \<open>Tailer\<close> (its time window is the last minute before the call).
\<close>

record 'w sys =
  parseArgs :: "optionsFlags \<Rightarrow> string list \<Rightarrow> error + optionsFlags \<times> string list"
  getenv :: "string \<Rightarrow> string"
  apiEndpoint :: "error + string"
  accessToken :: "error + string"
  username :: "error + string"
  clientMeta :: "string \<Rightarrow> string option \<Rightarrow> error + (string \<times> MetaInfo) list"
  curl :: "'w cli_command"
  decodeApps :: "string \<Rightarrow> error + source list"
  decodeServices :: "string \<Rightarrow> error + serviceInstance list"
  tailer :: "string \<Rightarrow> string list"

text \<open>
  The calls of \<open>log.Fatalf\<close>, one constructor per call site, in the order of the code.
  \<open>Fatalf\<close> ends the command.
\<close>

datatype fatal =
    CouldNotParseFlags error
  | InvalidArguments nat
  | ScopeMustBe
  | NoLogCacheEndpoint error
  | NoAccessToken error
  | MetaReadFailed error
  | AppInfoFailed error
  | NoUsername error

text \<open>
  What the command prints: \<open>Banner f\<close> is \<open>fmt.Fprintf(tableWriter, f)\<close>, \<open>Row f args\<close>
  is \<open>fmt.Fprintf(tw, f, args...)\<close> on the tab writer, which is flushed into
  \<open>tableWriter\<close> at the end. An operand is a string (\<open>%s\<close>), an integer (\<open>%d\<close>) or a
  \<open>time.Duration\<close> in nanoseconds (\<open>%s\<close>).
\<close>

datatype operand = Str string | Num int | Dur int

datatype print = Banner string | Row string "operand list"

definition tab :: string where
  "tab = [CHR 0x09]"

definition newline :: string where
  "newline = [CHR 0x0A]"

definition headerArgs :: "optionsFlags \<Rightarrow> operand list" where
  "headerArgs opts =
     (let args = [Str ''Source'', Str ''Count'', Str ''Expired'', Str ''Cache Duration''];
          args = (if ShowGUID opts then Str ''Source ID'' # args else args)
      in if EnableNoise opts then args @ [Str ''Rate''] else args)"

definition headerFormat :: "optionsFlags \<Rightarrow> string" where
  "headerFormat opts =
     (let f = ''%s'' @ tab @ ''%s'' @ tab @ ''%s'' @ tab @ ''%s'' @ newline;
          f = (if ShowGUID opts then ''%s'' @ tab @ f else f)
      in if EnableNoise opts then replace_first f newline (tab @ ''%s'' @ newline) else f)"

definition tableFormat :: "optionsFlags \<Rightarrow> string" where
  "tableFormat opts =
     (let f = ''%s'' @ tab @ ''%d'' @ tab @ ''%d'' @ tab @ ''%s'' @ newline;
          f = (if ShowGUID opts then ''%s'' @ tab @ f else f)
      in if EnableNoise opts then replace_first f newline (tab @ ''%d'' @ newline) else f)"

text \<open>The operands of one table row, as the three passes build them.\<close>

definition row_args ::
  "optionsFlags \<Rightarrow> (string \<Rightarrow> string list) \<Rightarrow> string \<Rightarrow> string \<Rightarrow> MetaInfo \<Rightarrow> operand list" where
  "row_args opts tail label sourceID m =
     (let args = [Str label, Num (Count m), Num (Expired m), Dur (cacheDuration m)];
          args = (if ShowGUID opts then Str sourceID # args else args)
      in if EnableNoise opts then args @ [Num (int (length (tail sourceID)))] else args)"

text \<open>
  The first pass (lines 133 to 152): every resource whose GUID is still a key of \<open>meta\<close>
  is taken out of \<open>meta\<close>, and printed when the scope is \<open>applications\<close> or \<open>all\<close>.
\<close>

fun named_pass ::
  "optionsFlags \<Rightarrow> string \<Rightarrow> (string \<Rightarrow> string list) \<Rightarrow> source list \<Rightarrow>
   (string \<times> MetaInfo) list \<Rightarrow> print list \<Rightarrow> (string \<times> MetaInfo) list \<times> print list" where
  "named_pass opts scope tail [] meta out = (meta, out)"
| "named_pass opts scope tail (app # rest) meta out =
     (case map_of meta (GUID app) of
        None \<Rightarrow> named_pass opts scope tail rest meta out
      | Some m \<Rightarrow>
          named_pass opts scope tail rest (filter (\<lambda>(k, v). k \<noteq> GUID app) meta)
            (if scope = ''applications'' \<or> scope = ''all''
             then out @ [Row (tableFormat opts) (row_args opts tail (Name app) (GUID app) m)]
             else out))"

text \<open>The second pass (lines 157 to 172): the remaining sources whose id looks like a GUID.\<close>

definition unnamed_pass ::
  "optionsFlags \<Rightarrow> string \<Rightarrow> (string \<Rightarrow> string list) \<Rightarrow> (string \<times> MetaInfo) list \<Rightarrow> print list" where
  "unnamed_pass opts scope tail meta =
     (if scope = ''applications'' \<or> scope = ''all''
      then map (\<lambda>(sourceID, m). Row (tableFormat opts) (row_args opts tail sourceID sourceID m))
             (filter (\<lambda>(sourceID, m). matchString sourceID) meta)
      else [])"

text \<open>The third pass (lines 174 to 190): the remaining sources whose id does not.\<close>

definition platform_pass ::
  "optionsFlags \<Rightarrow> string \<Rightarrow> (string \<Rightarrow> string list) \<Rightarrow> (string \<times> MetaInfo) list \<Rightarrow> print list" where
  "platform_pass opts scope tail meta =
     (if scope = ''platform'' \<or> scope = ''all''
      then map (\<lambda>(sourceID, m). Row (tableFormat opts) (row_args opts tail sourceID sourceID m))
             (filter (\<lambda>(sourceID, m). \<not> matchString sourceID) meta)
      else [])"

text \<open>Lines 109 to 192: the banner, the header row and the three passes.\<close>

definition print_table ::
  "optionsFlags \<Rightarrow> string \<Rightarrow> (string \<Rightarrow> string list) \<Rightarrow> string \<Rightarrow> source list \<Rightarrow>
   (string \<times> MetaInfo) list \<Rightarrow> print list" where
  "print_table opts scope tail user resources meta =
     (let out = [Banner (''Retrieving log cache metadata as '' @ user @ ''...'' @ newline @ newline),
                 Row (headerFormat opts) (headerArgs opts)];
          (meta', out) = named_pass opts scope tail resources meta out
      in out @ unnamed_pass opts scope tail meta' @ platform_pass opts scope tail meta')"

text \<open>\<open>logCacheEndpoint\<close> (lines 305 to 318).\<close>

definition logCacheEndpoint :: "'w sys \<Rightarrow> error + string" where
  "logCacheEndpoint sys =
     (let logCacheAddr = getenv sys ''LOG_CACHE_ADDR'' in
      if logCacheAddr \<noteq> [] then Inr logCacheAddr
      else case apiEndpoint sys of
             Inl err \<Rightarrow> Inl err
           | Inr endpoint \<Rightarrow> Inr (replace_first endpoint ''api'' ''log-cache''))"

text \<open>
  Lines 72 to 107 of \<open>Meta\<close>: the endpoint, the access token, the metadata, the names of
  the sources and the user name. Each step that fails ends the command.
\<close>

definition gather ::
  "'w sys \<Rightarrow> 'w \<Rightarrow> fatal + (string \<times> MetaInfo) list \<times> source list \<times> string" where
  "gather sys w =
     (case logCacheEndpoint sys of
        Inl err \<Rightarrow> Inl (NoLogCacheEndpoint err)
      | Inr addr \<Rightarrow>
          (case (if toLower (getenv sys ''LOG_CACHE_SKIP_AUTH'') \<noteq> ''true''
                 then map_sum id Some (accessToken sys) else Inr None) of
             Inl err \<Rightarrow> Inl (NoAccessToken err)
           | Inr token \<Rightarrow>
               (case clientMeta sys addr token of
                  Inl err \<Rightarrow> Inl (MetaReadFailed err)
                | Inr meta \<Rightarrow>
                    (case getSourceInfo (curl sys) (decodeApps sys) (decodeServices sys) meta w of
                       (groups, w', Inl err) \<Rightarrow> Inl (AppInfoFailed err)
                     | (groups, w', Inr resources) \<Rightarrow>
                         (case username sys of
                            Inl err \<Rightarrow> Inl (NoUsername err)
                          | Inr user \<Rightarrow> Inr (meta, resources, user))))))"

text \<open>\<open>Meta\<close> (lines 51 to 193): what it prints, or the fatal message it ends with.\<close>

definition Meta :: "'w sys \<Rightarrow> 'w \<Rightarrow> string list \<Rightarrow> fatal + print list" where
  "Meta sys w args =
     (case parseArgs sys defaultOptions args of
        Inl err \<Rightarrow> Inl (CouldNotParseFlags err)
      | Inr (opts, args') \<Rightarrow>
          if length args' > 0 then Inl (InvalidArguments (length args'))
          else
            (let scope = toLower (Scope opts) in
             if invalidScope scope then Inl ScopeMustBe
             else
               (case gather sys w of
                  Inl f \<Rightarrow> Inl f
                | Inr (meta, resources, user) \<Rightarrow>
                    Inr (print_table opts scope (tailer sys) user resources meta))))"

subsection \<open>A concrete run\<close>

text \<open>
  Fifty-two sources; a CLI that answers every call and counts the calls; an application
  lookup that names the first source; a service lookup that names none.
\<close>

definition demo_info :: MetaInfo where
  "demo_info = \<lparr>Count = 100000, Expired = 85008, OldestTimestamp = 1000000000, NewestTimestamp = 706000000000\<rparr>"

definition demo_meta :: "(string \<times> MetaInfo) list" where
  "demo_meta = map (\<lambda>n. (''source-'' @ [char_of (n + 48)], demo_info)) [0..<52]"

definition demo_cli :: "nat cli_command" where
  "demo_cli w args = (Inr [''{}''], Suc w)"

definition demo_apps :: "string \<Rightarrow> error + source list" where
  "demo_apps body = Inr [\<lparr>GUID = ''source-0'', Name = ''app''\<rparr>]"

definition demo_services :: "string \<Rightarrow> error + serviceInstance list" where
  "demo_services body = Inr []"

definition demo_sys :: "string \<Rightarrow> nat sys" where
  "demo_sys scope =
     \<lparr>parseArgs = (\<lambda>opts args. Inr (opts\<lparr>Scope := scope\<rparr>, [])),
      getenv = (\<lambda>name. []),
      apiEndpoint = Inr ''https://api.example.org'',
      accessToken = Inr ''bearer token'',
      username = Inr ''admin'',
      clientMeta = (\<lambda>addr token. Inr (take 2 demo_meta @ [(''doppler'', demo_info)])),
      curl = demo_cli,
      decodeApps = demo_apps,
      decodeServices = demo_services,
      tailer = (\<lambda>sourceID. [])\<rparr>"

section \<open>The tail command (pkg/command/tail.go)\<close>

text \<open>
  The sources hold the test of the tail command, not the command. What follows is written
  from the specification (sections 3, 4.3 and 4.5) and is kept apart from the part above,
  which is written from the code.
\<close>

text \<open>
  Modelled from the spec: the envelope that tail.go (not among the sources) receives from
  the Log Cache client, as section 3 describes it: source id, instance id, a signed 64-bit
  timestamp in nanoseconds, and one payload. The payload stays a type parameter: the
  tracker reads it only through the identity of the envelope.
\<close>

record 'p envelope =
  source_id :: string
  instance_id :: string
  timestamp :: "64 word"
  payload :: 'p

text \<open>
  Modelled from the spec: the cursor of section 3, which tail.go (not among the sources)
  would keep for one session: the lower bound of the next poll and the identities seen.
\<close>

record 'k cursor =
  next_start :: "64 word"
  seen :: "(64 word \<times> 'k) set"

text \<open>
  Modelled from the spec: the identity of an envelope, "(timestamp, variant,
  variant-specific key fields)". The spec does not list the key fields, and tail.go is not
  among the sources: \<open>key_of\<close> stands for the variant with its key fields.
\<close>

definition identity :: "('p \<Rightarrow> 'k) \<Rightarrow> 'p envelope \<Rightarrow> 64 word \<times> 'k" where
  "identity key_of e = (timestamp e, key_of (payload e))"

text \<open>
  Modelled from the spec: "max(timestamp observed in this batch)" of section 4.3, step 4,
  as tail.go (not among the sources) would compute it: the timestamps are compared as
  signed numbers; an empty batch has none.
\<close>

definition newest :: "'p envelope list \<Rightarrow> 64 word option" where
  "newest batch =
     (case batch of
        [] \<Rightarrow> None
      | e # es \<Rightarrow>
          Some (foldl (\<lambda>m x. if sint m < sint (timestamp x) then timestamp x else m)
                  (timestamp e) es))"

text \<open>
  Modelled from the spec: the Cursor and Dedup Tracker of tail.go (not among the sources),
  the five steps of section 4.3 in their order: sort the batch by timestamp, stably; drop
  what has been seen; emit the rest and remember it; move \<open>next_start\<close> past the newest
  timestamp of the batch (the sum wraps like a 64-bit integer); keep of \<open>seen\<close> only what
  is not older than \<open>next_start\<close> minus the retention margin. The spec names the margin
  without a value: it is the parameter \<open>margin\<close>, in nanoseconds.
\<close>

definition track ::
  "('p \<Rightarrow> 'k) \<Rightarrow> int \<Rightarrow> 'k cursor \<Rightarrow> 'p envelope list \<Rightarrow> 'p envelope list \<times> 'k cursor" where
  "track key_of margin c batch =
     (let ordered = sort_key (\<lambda>e. sint (timestamp e)) batch;
          fresh = filter (\<lambda>e. identity key_of e \<notin> seen c) ordered;
          seen1 = seen c \<union> set (map (identity key_of) fresh);
          start = (case newest batch of None \<Rightarrow> next_start c | Some t \<Rightarrow> t + 1);
          seen2 = Set.filter (\<lambda>i. sint start - margin \<le> sint (fst i)) seen1
      in (fresh, \<lparr>next_start = start, seen = seen2\<rparr>))"

text \<open>
  Modelled from the spec: the output sink of section 6, which tail.go (not among the
  sources) writes to: a state and a write that gives the next state or fails. The lines
  are written in order, and the first failure ends the writing.
\<close>

fun write_lines :: "('s \<Rightarrow> string \<Rightarrow> error + 's) \<Rightarrow> 's \<Rightarrow> string list \<Rightarrow> error + 's" where
  "write_lines wr s [] = Inr s"
| "write_lines wr s (l # ls) =
     (case wr s l of Inl err \<Rightarrow> Inl err | Inr s' \<Rightarrow> write_lines wr s' ls)"

text \<open>
  Modelled from the spec: the state \<open>Rendering\<close> of the Tail Engine of tail.go (not among
  the sources), section 4.5: the batch goes through the tracker and the renderer, the
  lines are written to the sink in order, and a write failure is the result. The renderer
  is the parameter \<open>render\<close>.
\<close>

definition rendering ::
  "('p envelope \<Rightarrow> string) \<Rightarrow> ('s \<Rightarrow> string \<Rightarrow> error + 's) \<Rightarrow> ('p \<Rightarrow> 'k) \<Rightarrow> int \<Rightarrow>
   'k cursor \<Rightarrow> 's \<Rightarrow> 'p envelope list \<Rightarrow> error + 'k cursor \<times> 's" where
  "rendering render wr key_of margin c sink batch =
     (case track key_of margin c batch of
        (fresh, c') \<Rightarrow>
          (case write_lines wr sink (map render fresh) of
             Inl err \<Rightarrow> Inl err
           | Inr sink' \<Rightarrow> Inr (c', sink')))"

text \<open>
  Modelled from the spec: a sink that keeps every line, as the buffer of tail_test.go does
  for tail.go (not among the sources).
\<close>

definition buffer :: "string list \<Rightarrow> string \<Rightarrow> error + string list" where
  "buffer written line = Inr (written @ [line])"

subsection \<open>The batch of the test\<close>

text \<open>
  The three log envelopes of \<open>tailResponseBodyDesc\<close> (tail_test.go), newest first, with a
  start time of 5 seconds; the payload is the level, and the line shows it.
\<close>

definition test_log :: "int \<Rightarrow> string \<Rightarrow> string envelope" where
  "test_log seconds level =
     \<lparr>source_id = ''app-name'', instance_id = ''0'',
      timestamp = word_of_int (seconds * 1000000000), payload = level\<rparr>"

definition tailResponseBodyDesc :: "string envelope list" where
  "tailResponseBodyDesc = [test_log 7 ''OUT'', test_log 6 ''OUT'', test_log 5 ''ERR'']"

definition test_line :: "string envelope \<Rightarrow> string" where
  "test_line e =
     ''['' @ source_id e @ ''/'' @ instance_id e @ ''] LOG/'' @ payload e @ '' log body''"

section \<open>Proofs\<close>

declare apps_loop.simps [simp del]
declare services_loop.simps [simp del]

subsection \<open>The order of the lines of a batch\<close>

lemma write_lines_buffer: "write_lines buffer written ls = Inr (written @ ls)"
  by (induction ls arbitrary: written) (simp_all add: buffer_def)

lemma same_timestamp: "(timestamp e = t) = (sint (timestamp e) = sint t)"
  by (rule word_eq_iff_signed)

text \<open>
  Claim C1. Whatever the order of the batch, and whatever the cursor has seen, the lines
  that the rendering step adds to a sink that keeps them are the lines of a list \<open>fresh\<close>
  of envelopes, in the order of that list; the timestamps of \<open>fresh\<close>, read as signed
  numbers, never decrease; and the envelopes of any one timestamp stand in \<open>fresh\<close> as
  they stood in the batch, those already seen left out.
\<close>

theorem batch_written_in_timestamp_order:
  "\<exists>fresh c'.
     rendering render buffer key_of margin c written batch = Inr (c', written @ map render fresh) \<and>
     sorted (map (\<lambda>e. sint (timestamp e)) fresh) \<and>
     (\<forall>t. filter (\<lambda>e. timestamp e = t) fresh =
           filter (\<lambda>e. timestamp e = t) (filter (\<lambda>e. identity key_of e \<notin> seen c) batch))"
proof -
  let ?key = "\<lambda>e::'a envelope. sint (timestamp e)"
  let ?new = "\<lambda>e. identity key_of e \<notin> seen c"
  let ?fresh = "filter ?new (sort_key ?key batch)"
  obtain c' where t: "track key_of margin c batch = (?fresh, c')"
    by (simp add: track_def Let_def)
  have "rendering render buffer key_of margin c written batch
          = Inr (c', written @ map render ?fresh)"
    by (simp add: rendering_def t write_lines_buffer)
  moreover have "sorted (map ?key ?fresh)"
    by (rule sorted_filter) simp
  moreover have "filter (\<lambda>e. timestamp e = t) ?fresh
                   = filter (\<lambda>e. timestamp e = t) (filter ?new batch)" for t
  proof -
    have "filter (\<lambda>e. timestamp e = t) ?fresh
            = filter ?new (filter (\<lambda>e. ?key e = sint t) (sort_key ?key batch))"
      by (simp add: same_timestamp conj_commute)
    also have "\<dots> = filter ?new (filter (\<lambda>e. ?key e = sint t) batch)"
      by (simp only: sort_key_stable)
    also have "\<dots> = filter (\<lambda>e. timestamp e = t) (filter ?new batch)"
      by (simp add: same_timestamp conj_commute)
    finally show ?thesis .
  qed
  ultimately show ?thesis by blast
qed

text \<open>The batch of the test, written by a new cursor: the oldest line, \<open>ERR\<close>, comes first.\<close>

lemma test_batch_ascending:
  "map_sum id snd
     (rendering test_line buffer id 1000000000 \<lparr>next_start = 0, seen = {}\<rparr> [] tailResponseBodyDesc)
   = Inr [''[app-name/0] LOG/ERR log body'', ''[app-name/0] LOG/OUT log body'',
          ''[app-name/0] LOG/OUT log body'']"
  by code_simp

subsection \<open>The groups of a lookup\<close>







subsection \<open>The empty scope\<close>

lemma named_pass_silent:
  "scope \<noteq> ''applications'' \<Longrightarrow> scope \<noteq> ''all'' \<Longrightarrow>
   snd (named_pass opts scope tail rs meta out) = out"
  by (induction rs arbitrary: meta) (auto split: option.splits)

lemma gather_not_scope: "gather sys w \<noteq> Inl ScopeMustBe"
  by (auto simp: gather_def split: sum.splits prod.splits if_splits)

lemma print_table_empty_scope:
  "print_table opts [] tail user resources meta =
     [Banner (''Retrieving log cache metadata as '' @ user @ ''...'' @ newline @ newline),
      Row (headerFormat opts) (headerArgs opts)]"
proof -
  let ?out = "[Banner (''Retrieving log cache metadata as '' @ user @ ''...'' @ newline @ newline),
      Row (headerFormat opts) (headerArgs opts)]"
  obtain meta' out' where n: "named_pass opts [] tail resources meta ?out = (meta', out')"
    by (cases "named_pass opts [] tail resources meta ?out")
  with named_pass_silent [of "[]" opts tail resources meta ?out] have "out' = ?out" by simp
  with n show ?thesis
    by (simp add: print_table_def unnamed_pass_def platform_pass_def)
qed

text \<open>
  Claim C10. \<open>invalidScope\<close> accepts the empty string. When the flags parse with an
  empty scope, \<open>Meta\<close> never ends with the fatal message \<open>Scope must be ...\<close>; with no
  argument left over, it ends with the failure of one of its collaborators or prints the
  banner and the header row and nothing else: none of the three passes prints a row.
\<close>

theorem meta_empty_scope:
  assumes "parseArgs sys defaultOptions args = Inr (opts, rest)" and "Scope opts = []"
  shows "\<not> invalidScope [] \<and>
         Meta sys w args \<noteq> Inl ScopeMustBe \<and>
         Meta sys w args =
           (if rest \<noteq> [] then Inl (InvalidArguments (length rest))
            else case gather sys w of
                   Inl f \<Rightarrow> Inl f
                 | Inr (meta, resources, user) \<Rightarrow>
                     Inr [Banner (''Retrieving log cache metadata as '' @ user @ ''...'' @ newline @ newline),
                          Row (headerFormat opts) (headerArgs opts)])"
proof -
  have a: "\<not> invalidScope []" by (simp add: invalidScope_def)
  have c: "Meta sys w args =
           (if rest \<noteq> [] then Inl (InvalidArguments (length rest))
            else case gather sys w of
                   Inl f \<Rightarrow> Inl f
                 | Inr (meta, resources, user) \<Rightarrow>
                     Inr [Banner (''Retrieving log cache metadata as '' @ user @ ''...'' @ newline @ newline),
                          Row (headerFormat opts) (headerArgs opts)])"
    using assms a
    by (simp add: Meta_def toLower_def print_table_empty_scope split: sum.splits prod.splits)
  have "Meta sys w args \<noteq> Inl ScopeMustBe"
    using gather_not_scope [of sys w] unfolding c by (auto split: sum.splits)
  with a c show ?thesis by blast
qed

text \<open>
  The same collaborators with an empty scope and with the scope \<open>all\<close>: the first run
  prints the banner and the header, the second three rows more.
\<close>

theorem meta_empty_scope_witness:
  "parseArgs (demo_sys []) defaultOptions [''--scope='']
     = Inr (defaultOptions\<lparr>Scope := []\<rparr>, []) \<and>
   Scope (defaultOptions\<lparr>Scope := []\<rparr>) = [] \<and>
   gather (demo_sys []) 0 =
     Inr (take 2 demo_meta @ [(''doppler'', demo_info)], [\<lparr>GUID = ''source-0'', Name = ''app''\<rparr>], ''admin'') \<and>
   Meta (demo_sys []) 0 [''--scope='']
     = Inr [Banner (''Retrieving log cache metadata as admin...'' @ newline @ newline),
            Row (''%s'' @ tab @ ''%s'' @ tab @ ''%s'' @ tab @ ''%s'' @ newline)
              [Str ''Source'', Str ''Count'', Str ''Expired'', Str ''Cache Duration'']] \<and>
   length (case Meta (demo_sys ''all'') 0 [''--scope=all''] of Inl f \<Rightarrow> [] | Inr out \<Rightarrow> out) = 5"
proof -
  have p: "parseArgs (demo_sys []) defaultOptions [''--scope='']
             = Inr (defaultOptions\<lparr>Scope := []\<rparr>, [])"
    by (simp add: demo_sys_def)
  have s: "Scope (defaultOptions\<lparr>Scope := []\<rparr>) = []"
    by simp
  have g: "gather (demo_sys []) 0 =
     Inr (take 2 demo_meta @ [(''doppler'', demo_info)], [\<lparr>GUID = ''source-0'', Name = ''app''\<rparr>], ''admin'')"
    by code_simp
  have h: "headerFormat (defaultOptions\<lparr>Scope := []\<rparr>) = ''%s'' @ tab @ ''%s'' @ tab @ ''%s'' @ tab @ ''%s'' @ newline"
     "headerArgs (defaultOptions\<lparr>Scope := []\<rparr>) = [Str ''Source'', Str ''Count'', Str ''Expired'', Str ''Cache Duration'']"
    by (simp_all add: headerFormat_def headerArgs_def defaultOptions_def)
  have all: "length (case Meta (demo_sys ''all'') 0 [''--scope=all''] of Inl f \<Rightarrow> [] | Inr out \<Rightarrow> out) = 5"
    by code_simp
  from meta_empty_scope [OF p s, of 0]
  have "Meta (demo_sys []) 0 [''--scope='']
     = Inr [Banner (''Retrieving log cache metadata as admin...'' @ newline @ newline),
            Row (''%s'' @ tab @ ''%s'' @ tab @ ''%s'' @ tab @ ''%s'' @ newline)
              [Str ''Source'', Str ''Count'', Str ''Expired'', Str ''Cache Duration'']]"
    by (simp add: g h)
  with p s g all show ?thesis by blast
qed

end
